theory Spec2Isabelle
  imports Main "HOL-Library.Multiset" "HOL-Library.Product_Lexorder"
begin

section \<open>Data model (tournament/tournament.h as used by swisssystems/common.cpp)\<close>

text \<open>
  Modelled from the spec: the header \<^verbatim>\<open>tournament/tournament.h\<close>, which declares Color,
  Match, Player and Tournament, and \<^verbatim>\<open>swisssystems/common.h\<close>, which declares Pairing. The
  records hold the fields that \<^verbatim>\<open>common.cpp\<close> reads, under the names it reads them by, as
  the specification's data model describes them. The unsigned index and score types
  (\<^verbatim>\<open>player_index\<close>, \<^verbatim>\<open>round_index\<close>, \<^verbatim>\<open>points\<close>) are only compared, incremented for
  display and used as indices, so they are natural numbers. The field \<^verbatim>\<open>id\<close> is named
  \<open>id_player\<close>.
\<close>

datatype Color = COLOR_WHITE | COLOR_BLACK | COLOR_NONE

record Match =
  opponent :: nat
  color :: Color
  gameWasPlayed :: bool

record Player =
  matches :: "Match list"
  id_player :: nat
  scoreWithoutAcceleration :: nat
  rankIndex :: nat
  colorPreference :: Color
  absoluteColorPreference :: bool
  strongColorPreference :: bool

record Tournament =
  players :: "Player list"
  playedRounds :: nat

record Pairing =
  white :: nat
  black :: nat

section \<open>Color history: skipUnplayedGames and findFirstColorDifference\<close>

text \<open>
  A \<^verbatim>\<open>const_reverse_iterator\<close> into \<^verbatim>\<open>player.matches\<close> is modelled by the part of the
  reversed sequence that it has not passed yet: \<^verbatim>\<open>rbegin()\<close> is \<^term>\<open>rev (matches p)\<close>,
  \<^verbatim>\<open>rend()\<close> is \<^term>\<open>[]\<close>, \<^verbatim>\<open>++iterator\<close> is the tail and \<^verbatim>\<open>*iterator\<close> is the head.
\<close>

fun skipUnplayedGames :: "Match list \<Rightarrow> Match list" where
  "skipUnplayedGames [] = []"
| "skipUnplayedGames (m # ms) =
     (if \<not> gameWasPlayed m then skipUnplayedGames ms else m # ms)"

lemma skipUnplayedGames_length: "length (skipUnplayedGames ms) \<le> length ms"
  by (induction ms) auto

text \<open>The \<^verbatim>\<open>while\<close> loop of findFirstColorDifference, returning both iterators.\<close>

function colorDifferenceLoop :: "Match list \<Rightarrow> Match list \<Rightarrow> Match list \<times> Match list" where
  "colorDifferenceLoop (m0 # r0) (m1 # r1) =
     (if color m0 = color m1
      then colorDifferenceLoop (skipUnplayedGames r0) (skipUnplayedGames r1)
      else (m0 # r0, m1 # r1))"
| "colorDifferenceLoop [] it1 = ([], it1)"
| "colorDifferenceLoop (m0 # r0) [] = (m0 # r0, [])"
  by pat_completeness auto
termination
  by (relation "measure (\<lambda>(it0, it1). length it0)")
     (auto simp: skipUnplayedGames_length le_imp_less_Suc)

text \<open>\<^verbatim>\<open>iterator == rend() ? COLOR_NONE : iterator->color\<close>\<close>

fun colorAt :: "Match list \<Rightarrow> Color" where
  "colorAt [] = COLOR_NONE"
| "colorAt (m # ms) = color m"

text \<open>The two output parameters \<^verbatim>\<open>color0\<close>, \<^verbatim>\<open>color1\<close> are returned as a pair.\<close>

definition findFirstColorDifference :: "Player \<Rightarrow> Player \<Rightarrow> Color \<times> Color" where
  "findFirstColorDifference player0 player1 =
     (let iterator0 = skipUnplayedGames (rev (matches player0));
          iterator1 = skipUnplayedGames (rev (matches player1));
          (iterator0', iterator1') = colorDifferenceLoop iterator0 iterator1
      in (colorAt iterator0', colorAt iterator1'))"

subsection \<open>The scan as the specification words it\<close>

text \<open>The colors of a player's played games, most recent first.\<close>

definition playedColors :: "Player \<Rightarrow> Color list" where
  "playedColors p = map color (filter gameWasPlayed (rev (matches p)))"

text \<open>
  Specification wording: advance both positions in lockstep while the colors are equal;
  stop at the first position where they differ, or when either side is exhausted; an
  exhausted side yields no-color.
\<close>

fun mostRecentDivergence :: "Color list \<Rightarrow> Color list \<Rightarrow> Color \<times> Color" where
  "mostRecentDivergence (a # as) (b # bs) =
     (if a = b then mostRecentDivergence as bs else (a, b))"
| "mostRecentDivergence [] (b # bs) = (COLOR_NONE, b)"
| "mostRecentDivergence (a # as) [] = (a, COLOR_NONE)"
| "mostRecentDivergence [] [] = (COLOR_NONE, COLOR_NONE)"

section \<open>Publication order: sortResults\<close>

text \<open>
  \<^verbatim>\<open>tournament::unacceleratedScoreRankCompare\<close> is declared in the missing header and is a
  parameter of the model. It receives two players and answers whether the first ranks
  below the second: the lambda of sortResults takes the black player as the higher one
  of a pairing exactly when the comparison of (white, black) answers true.
\<close>

type_synonym rankCompare = "Player \<Rightarrow> Player \<Rightarrow> bool"

text \<open>
  \<^verbatim>\<open>tournament.players[i]\<close> is not bounds checked. An index outside the sequence is
  undefined behaviour in C++; the model makes it the value \<^term>\<open>None\<close>, which every
  caller passes on.
\<close>

definition playerAt :: "Tournament \<Rightarrow> nat \<Rightarrow> Player option" where
  "playerAt t i = (if i < length (players t) then Some (players t ! i) else None)"

text \<open>
  The lambda passed to \<^verbatim>\<open>pairs.sort\<close>. \<^verbatim>\<open>std::make_tuple(...) < std::make_tuple(...)\<close>
  compares lexicographically, as \<open><\<close> on nested pairs does. The first tuple holds the
  scores of the players of \<^verbatim>\<open>pair1\<close> and the rank index of \<^verbatim>\<open>pair0\<close>, the second tuple
  the scores of \<^verbatim>\<open>pair0\<close> and the rank index of \<^verbatim>\<open>pair1\<close>.
\<close>

definition higherInPair :: "rankCompare \<Rightarrow> Tournament \<Rightarrow> Pairing \<Rightarrow> nat option" where
  "higherInPair unacceleratedScoreRankCompare t pair =
     (case (playerAt t (white pair), playerAt t (black pair)) of
        (Some w, Some b) \<Rightarrow>
          Some (if unacceleratedScoreRankCompare w b then black pair else white pair)
      | _ \<Rightarrow> None)"

definition lowerInPair :: "Pairing \<Rightarrow> nat \<Rightarrow> nat" where
  "lowerInPair pair higher = (if white pair = higher then black pair else white pair)"

definition sortResultsCompare ::
  "rankCompare \<Rightarrow> Tournament \<Rightarrow> Pairing \<Rightarrow> Pairing \<Rightarrow> bool option" where
  "sortResultsCompare unacceleratedScoreRankCompare t pair0 pair1 =
     (case (higherInPair unacceleratedScoreRankCompare t pair0,
            higherInPair unacceleratedScoreRankCompare t pair1) of
        (Some higherInPair0, Some higherInPair1) \<Rightarrow>
          (let lowerInPair0 = lowerInPair pair0 higherInPair0;
               lowerInPair1 = lowerInPair pair1 higherInPair1
           in Some
             ((white pair0 = black pair0,
               scoreWithoutAcceleration (players t ! higherInPair1),
               scoreWithoutAcceleration (players t ! lowerInPair1),
               rankIndex (players t ! higherInPair0))
              < (white pair1 = black pair1,
                 scoreWithoutAcceleration (players t ! higherInPair0),
                 scoreWithoutAcceleration (players t ! lowerInPair0),
                 rankIndex (players t ! higherInPair1))))
      | _ \<Rightarrow> None)"

text \<open>
  \<^verbatim>\<open>std::list::sort\<close> is a stable sort. The standard fixes its result and not its
  algorithm: with a comparison that is a strict weak ordering the result is the one
  stable sorted permutation of the input. The model is a stable insertion sort in which
  every call of the comparison can be undefined; a list of fewer than two elements is
  sorted without any call. Lemma \<open>sortResults_sort_key\<close> below shows that on valid
  pairings the result is the library's stable \<^const>\<open>sort_key\<close>, and lemma
  \<open>sortResults_undefined_iff\<close> that the result is undefined exactly when a comparison
  has to read a player outside the tournament. The list is sorted in place; the model
  returns the sorted list.
\<close>

fun insertSorted :: "('a \<Rightarrow> 'a \<Rightarrow> bool option) \<Rightarrow> 'a \<Rightarrow> 'a list \<Rightarrow> 'a list option" where
  "insertSorted lt x [] = Some [x]"
| "insertSorted lt x (y # ys) =
     (case lt y x of
        None \<Rightarrow> None
      | Some isLess \<Rightarrow>
          if isLess then map_option ((#) y) (insertSorted lt x ys) else Some (x # y # ys))"

fun listSort :: "('a \<Rightarrow> 'a \<Rightarrow> bool option) \<Rightarrow> 'a list \<Rightarrow> 'a list option" where
  "listSort lt [] = Some []"
| "listSort lt (x # xs) =
     (case listSort lt xs of None \<Rightarrow> None | Some ys \<Rightarrow> insertSorted lt x ys)"

definition sortResults :: "rankCompare \<Rightarrow> Pairing list \<Rightarrow> Tournament \<Rightarrow> Pairing list option" where
  "sortResults unacceleratedScoreRankCompare pairs t =
     listSort (sortResultsCompare unacceleratedScoreRankCompare t) pairs"

section \<open>The checklist: getHeader, getRow, updateColumnWidths, printRow, printChecklist\<close>

text \<open>
  The two exceptions that printChecklist catches, and the two ways in which the code can
  stop without a result: a failed \<^verbatim>\<open>assert\<close>, and a read or write outside a sequence
  (undefined behaviour in C++).
\<close>

datatype exn = length_error | bad_alloc

datatype fault = AssertionFailure | OutOfBounds

datatype 'a result = Returns 'a | Throws exn | Halts fault

fun andThen :: "'a result \<Rightarrow> ('a \<Rightarrow> 'b result) \<Rightarrow> 'b result" where
  "andThen (Returns x) f = f x"
| "andThen (Throws e) f = Throws e"
| "andThen (Halts h) f = Halts h"

text \<open>
  What the code takes from outside this file: the platform constants
  \<^verbatim>\<open>std::string::npos\<close> and \<^verbatim>\<open>std::numeric_limits<int>::max()\<close>, whether the build
  defines \<^verbatim>\<open>NDEBUG\<close> (then \<^verbatim>\<open>assert\<close> expands to nothing), the two overloads of
  \<^verbatim>\<open>utility::uintstringconversion::toString\<close> and the member function
  \<^verbatim>\<open>Player::scoreWithAcceleration\<close>.
\<close>

record Environment =
  npos :: nat
  intMax :: nat
  ndebug :: bool
  toString :: "nat \<Rightarrow> string"
  toStringDecimal :: "nat \<Rightarrow> nat \<Rightarrow> string"
  scoreWithAcceleration :: "Player \<Rightarrow> nat"

text \<open>
  Memory exhaustion. Whether an allocation throws \<^verbatim>\<open>std::bad_alloc\<close> is decided by the
  run-time environment and not by the arguments of the function. The model takes that
  decision as a parameter: printChecklist builds a header or a row at the four places
  below (the rows counted from 0 in the order of \<^verbatim>\<open>orderedPlayers\<close>), and a function
  \<open>mem\<close> from these places to \<^typ>\<open>bool\<close> says whether the helper called there gets its
  memory. getHeader and getRow receive the answer as their argument
  \<open>memoryAvailable\<close>.
\<close>

datatype allocSite = WidthPassHeader | WidthPassRow nat | OutputPassHeader | OutputPassRow nat

definition getHeader :: "Environment \<Rightarrow> bool \<Rightarrow> string list \<Rightarrow> Tournament \<Rightarrow> string list result" where
  "getHeader env memoryAvailable specialtyHeaders t =
     (if \<not> memoryAvailable then Throws bad_alloc
      else if playedRounds t \<ge> npos env then Throws length_error
      else Returns
        ([''ID'', ''Pts'', replicate (playedRounds t + 1) CHR ''-'', ''Pref'']
         @ specialtyHeaders
         @ ['''']
         @ map (\<lambda>roundIndex. CHR ''R'' # toString env (roundIndex + 1))
             [0..<playedRounds t]))"

fun colorString :: "Match list \<Rightarrow> string" where
  "colorString [] = []"
| "colorString (m # ms) =
     (if gameWasPlayed m
      then (if color m = COLOR_WHITE then CHR ''W'' else CHR ''B'') # colorString ms
      else colorString ms)"

definition preferenceString :: "Player \<Rightarrow> string" where
  "preferenceString player =
     (let preferenceIsWhite = (colorPreference player = COLOR_WHITE)
      in if absoluteColorPreference player then (if preferenceIsWhite then ''W '' else ''B '')
         else if strongColorPreference player
           then (if preferenceIsWhite then ''(W)'' else ''(B)'')
         else if colorPreference player = COLOR_NONE then ''A ''
         else if preferenceIsWhite then ''w '' else ''b '')"

text \<open>
  The last loop of getRow, over the round indices below \<^verbatim>\<open>tournament.playedRounds\<close>:
  \<^verbatim>\<open>player.matches[roundIndex]\<close> is not bounds checked.
\<close>

fun roundColumns :: "Environment \<Rightarrow> Player \<Rightarrow> nat list \<Rightarrow> string list result" where
  "roundColumns env player [] = Returns []"
| "roundColumns env player (roundIndex # rest) =
     (if roundIndex < length (matches player)
      then andThen (roundColumns env player rest)
        (\<lambda>columns. Returns
          ((if gameWasPlayed (matches player ! roundIndex)
            then toString env (opponent (matches player ! roundIndex) + 1)
            else '''') # columns))
      else Halts OutOfBounds)"

definition getRow ::
  "Environment \<Rightarrow> bool \<Rightarrow> string list \<Rightarrow> Player \<Rightarrow> Tournament \<Rightarrow> string list result" where
  "getRow env memoryAvailable specialtyColumns player t =
     (if \<not> memoryAvailable then Throws bad_alloc
      else andThen (roundColumns env player [0..<playedRounds t])
        (\<lambda>columns. Returns
          ([toString env (id_player player + 1),
            toStringDecimal env (scoreWithAcceleration env player) 1,
            colorString (matches player),
            preferenceString player]
           @ specialtyColumns
           @ ['''']
           @ columns)))"

text \<open>
  updateColumnWidths walks the widths and the row together. With assertions enabled a
  row that is longer or shorter than the widths fails an \<^verbatim>\<open>assert\<close>; under
  \<^verbatim>\<open>NDEBUG\<close> a longer row writes through the end iterator (after the length check of
  its string) and a shorter row passes. The updated widths are returned.
\<close>

fun updateColumnWidths :: "Environment \<Rightarrow> nat list \<Rightarrow> string list \<Rightarrow> nat list result" where
  "updateColumnWidths env widths [] =
     (if widths = [] \<or> ndebug env then Returns widths else Halts AssertionFailure)"
| "updateColumnWidths env [] (s # ss) =
     (if \<not> ndebug env then Halts AssertionFailure
      else if length s > intMax env then Throws length_error
      else Halts OutOfBounds)"
| "updateColumnWidths env (w # ws) (s # ss) =
     (if length s > intMax env then Throws length_error
      else andThen (updateColumnWidths env ws ss)
        (\<lambda>ws'. Returns (max w (length s) # ws')))"

text \<open>
  printRow writes each string right-aligned in its column width and a tab after it; the
  model returns the text written. The width iterator is dereferenced unchecked.
\<close>

definition tab :: string where
  "tab = [CHR 0x09]"

fun printRow :: "string list \<Rightarrow> nat list \<Rightarrow> string result" where
  "printRow [] widths = Returns []"
| "printRow (s # ss) [] = Halts OutOfBounds"
| "printRow (s # ss) (w # ws) =
     andThen (printRow ss ws)
       (\<lambda>rest. Returns (replicate (w - length s) CHR '' '' @ s @ tab @ rest))"

text \<open>
  The first half of the \<^verbatim>\<open>try\<close> block: the column widths of the header, then of every
  row.
\<close>

fun headerWidths :: "Environment \<Rightarrow> string list \<Rightarrow> nat list result" where
  "headerWidths env [] = Returns []"
| "headerWidths env (s # ss) =
     (if length s > intMax env then Throws length_error
      else andThen (headerWidths env ss) (\<lambda>ws. Returns (length s # ws)))"

fun rowWidths ::
  "Environment \<Rightarrow> (allocSite \<Rightarrow> bool) \<Rightarrow> (Player \<Rightarrow> string list) \<Rightarrow> Tournament \<Rightarrow>
   nat \<Rightarrow> Player list \<Rightarrow> nat list \<Rightarrow> nat list result" where
  "rowWidths env mem specialtyValues t i [] columnWidths = Returns columnWidths"
| "rowWidths env mem specialtyValues t i (player # rest) columnWidths =
     andThen (getRow env (mem (WidthPassRow i)) (specialtyValues player) player t)
       (\<lambda>row. andThen (updateColumnWidths env columnWidths row)
         (rowWidths env mem specialtyValues t (i + 1) rest))"

definition computeColumnWidths ::
  "Environment \<Rightarrow> (allocSite \<Rightarrow> bool) \<Rightarrow> string list \<Rightarrow> (Player \<Rightarrow> string list) \<Rightarrow>
   Tournament \<Rightarrow> Player list \<Rightarrow> nat list result" where
  "computeColumnWidths env mem specialtyHeaders specialtyValues t orderedPlayers =
     andThen (getHeader env (mem WidthPassHeader) specialtyHeaders t)
       (\<lambda>header. andThen (headerWidths env header)
         (rowWidths env mem specialtyValues t 0 orderedPlayers))"

text \<open>
  The second half: the output. The stream is the text written so far; an exception
  leaves what was written before it. \<^verbatim>\<open>previousPlayer\<close> is a null pointer before the
  first row.
\<close>

definition endl :: string where
  "endl = [CHR 0x0A]"

fun outputRows ::
  "Environment \<Rightarrow> (allocSite \<Rightarrow> bool) \<Rightarrow> (Player \<Rightarrow> string list) \<Rightarrow> Tournament \<Rightarrow>
   nat list \<Rightarrow> nat \<Rightarrow> Player option \<Rightarrow> Player list \<Rightarrow> string \<Rightarrow> string \<times> unit result" where
  "outputRows env mem specialtyValues t columnWidths i previousPlayer [] ostream =
     (ostream, Returns ())"
| "outputRows env mem specialtyValues t columnWidths i previousPlayer (player # rest) ostream =
     (let ostream1 = ostream @ endl;
          ostream2 =
            (if (case previousPlayer of
                   None \<Rightarrow> True
                 | Some previous \<Rightarrow>
                     scoreWithAcceleration env previous \<noteq> scoreWithAcceleration env player)
             then ostream1 @ endl else ostream1)
      in case andThen
            (getRow env (mem (OutputPassRow i)) (specialtyValues player) player t)
            (\<lambda>row. printRow row columnWidths) of
           Returns text \<Rightarrow>
             outputRows env mem specialtyValues t columnWidths (i + 1) (Some player) rest
               (ostream2 @ text)
         | Throws e \<Rightarrow> (ostream2, Throws e)
         | Halts h \<Rightarrow> (ostream2, Halts h))"

text \<open>
  The whole \<^verbatim>\<open>try\<close> block: the text written and how the block ended.
\<close>

definition checklistBody ::
  "Environment \<Rightarrow> (allocSite \<Rightarrow> bool) \<Rightarrow> string list \<Rightarrow> (Player \<Rightarrow> string list) \<Rightarrow>
   Tournament \<Rightarrow> Player list \<Rightarrow> string \<times> unit result" where
  "checklistBody env mem specialtyHeaders specialtyValues t orderedPlayers =
     (case computeColumnWidths env mem specialtyHeaders specialtyValues t orderedPlayers of
        Throws e \<Rightarrow> ([], Throws e)
      | Halts h \<Rightarrow> ([], Halts h)
      | Returns columnWidths \<Rightarrow>
          (case andThen (getHeader env (mem OutputPassHeader) specialtyHeaders t)
                  (\<lambda>header. printRow header columnWidths) of
             Throws e \<Rightarrow> (endl, Throws e)
           | Halts h \<Rightarrow> (endl, Halts h)
           | Returns text \<Rightarrow>
               outputRows env mem specialtyValues t columnWidths 0 None orderedPlayers
                 (endl @ text)))"

definition tooLargeMessage :: string where
  "tooLargeMessage =
     ''Error: The build does not support checklists for tournaments this large.''"

definition outOfMemoryMessage :: string where
  "outOfMemoryMessage = ''Error: There was not enough memory to construct the checklist.''"

text \<open>
  printChecklist: the two handlers and the three final \<^verbatim>\<open>std::endl\<close>. The result is the
  text appended to the stream.
\<close>

definition printChecklist ::
  "Environment \<Rightarrow> (allocSite \<Rightarrow> bool) \<Rightarrow> string list \<Rightarrow> (Player \<Rightarrow> string list) \<Rightarrow>
   Tournament \<Rightarrow> Player list \<Rightarrow> string result" where
  "printChecklist env mem specialtyHeaders specialtyValues t orderedPlayers =
     (case checklistBody env mem specialtyHeaders specialtyValues t orderedPlayers of
        (ostream, Returns u) \<Rightarrow> Returns (ostream @ endl @ endl @ endl)
      | (ostream, Throws length_error) \<Rightarrow>
          Returns (ostream @ tooLargeMessage @ endl @ endl @ endl)
      | (ostream, Throws bad_alloc) \<Rightarrow>
          Returns (ostream @ outOfMemoryMessage @ endl @ endl @ endl)
      | (ostream, Halts h) \<Rightarrow> Halts h)"

section \<open>getInfo\<close>

text \<open>
  Modelled from the spec: the enumeration \<^verbatim>\<open>SwissSystem\<close> of the missing header
  \<^verbatim>\<open>swisssystems/common.h\<close>. The specification names one supported variant, Burstein;
  \<open>OtherSystem\<close> stands for every other value of the enumeration type, which the
  \<^verbatim>\<open>default\<close> label of getInfo receives. \<open>bursteinInfo\<close> is the one Info object of
  \<^verbatim>\<open>common.cpp\<close>.
\<close>

datatype SwissSystem = BURSTEIN | OtherSystem nat

datatype Info = bursteinInfo

text \<open>
  \<^verbatim>\<open>assert(false)\<close> under the \<^verbatim>\<open>default\<close> label stops the program when assertions are
  enabled. When the build defines \<^verbatim>\<open>NDEBUG\<close> it expands to nothing, control leaves the
  \<^verbatim>\<open>switch\<close> and reaches the final \<^verbatim>\<open>return bursteinInfo\<close>.
\<close>

definition getInfo :: "bool \<Rightarrow> SwissSystem \<Rightarrow> Info result" where
  "getInfo ndebugDefined swissSystem =
     (case swissSystem of
        BURSTEIN \<Rightarrow> Returns bursteinInfo
      | OtherSystem other \<Rightarrow>
          if ndebugDefined then Returns bursteinInfo else Halts AssertionFailure)"

section \<open>Vocabulary of the properties\<close>

text \<open>
  A pairing is valid in a tournament when both its indices are inside the player
  sequence. On a valid pairing \<open>higherOf\<close> and \<open>lowerOf\<close> are the two indices that the
  lambda of sortResults computes, and \<open>sortKey\<close> is the key by which the lambda orders
  the pairings: bye flag, then both scores descending, then the rank index.
\<close>

definition validPairing :: "Tournament \<Rightarrow> Pairing \<Rightarrow> bool" where
  "validPairing t pair \<longleftrightarrow> white pair < length (players t) \<and> black pair < length (players t)"

definition isBye :: "Pairing \<Rightarrow> bool" where
  "isBye pair \<longleftrightarrow> white pair = black pair"

definition higherOf :: "rankCompare \<Rightarrow> Tournament \<Rightarrow> Pairing \<Rightarrow> nat" where
  "higherOf cmp t pair =
     (if cmp (players t ! white pair) (players t ! black pair) then black pair else white pair)"

definition lowerOf :: "rankCompare \<Rightarrow> Tournament \<Rightarrow> Pairing \<Rightarrow> nat" where
  "lowerOf cmp t pair = lowerInPair pair (higherOf cmp t pair)"

definition sortKey :: "rankCompare \<Rightarrow> Tournament \<Rightarrow> Pairing \<Rightarrow> bool \<times> int \<times> int \<times> nat" where
  "sortKey cmp t pair =
     (isBye pair,
      - int (scoreWithoutAcceleration (players t ! higherOf cmp t pair)),
      - int (scoreWithoutAcceleration (players t ! lowerOf cmp t pair)),
      rankIndex (players t ! higherOf cmp t pair))"

definition strictTotalOrderOn :: "'a set \<Rightarrow> ('a \<Rightarrow> 'a \<Rightarrow> bool) \<Rightarrow> bool" where
  "strictTotalOrderOn A lt \<longleftrightarrow>
     (\<forall>a\<in>A. \<not> lt a a)
     \<and> (\<forall>a\<in>A. \<forall>b\<in>A. \<forall>c\<in>A. lt a b \<longrightarrow> lt b c \<longrightarrow> lt a c)
     \<and> (\<forall>a\<in>A. \<forall>b\<in>A. a \<noteq> b \<longrightarrow> lt a b \<or> lt b a)"

definition swapColors :: "Pairing \<Rightarrow> Pairing" where
  "swapColors pair = \<lparr>white = black pair, black = white pair\<rparr>"

text \<open>
The cells of a header and of a row when nothing fails.
\<close>

definition roundCell :: "Environment \<Rightarrow> Player \<Rightarrow> nat \<Rightarrow> string" where
  "roundCell env player roundIndex =
     (if gameWasPlayed (matches player ! roundIndex)
      then toString env (opponent (matches player ! roundIndex) + 1) else '''')"

definition rowCells :: "Environment \<Rightarrow> string list \<Rightarrow> Player \<Rightarrow> Tournament \<Rightarrow> string list" where
  "rowCells env specialtyColumns player t =
     [toString env (id_player player + 1),
      toStringDecimal env (scoreWithAcceleration env player) 1,
      colorString (matches player),
      preferenceString player]
     @ specialtyColumns @ [''''] @ map (roundCell env player) [0..<playedRounds t]"

definition headerCells :: "Environment \<Rightarrow> string list \<Rightarrow> Tournament \<Rightarrow> string list" where
  "headerCells env specialtyHeaders t =
     [''ID'', ''Pts'', replicate (playedRounds t + 1) CHR ''-'', ''Pref'']
     @ specialtyHeaders @ ['''']
     @ map (\<lambda>roundIndex. CHR ''R'' # toString env (roundIndex + 1)) [0..<playedRounds t]"

section \<open>Example data\<close>

subsection \<open>Players with a color history\<close>

definition playedMatch :: "nat \<Rightarrow> Color \<Rightarrow> Match" where
  "playedMatch opp c = \<lparr>opponent = opp, color = c, gameWasPlayed = True\<rparr>"

definition unplayedMatch :: "nat \<Rightarrow> Match" where
  "unplayedMatch self = \<lparr>opponent = self, color = COLOR_NONE, gameWasPlayed = False\<rparr>"

definition mkPlayer :: "nat \<Rightarrow> nat \<Rightarrow> nat \<Rightarrow> Match list \<Rightarrow> Player" where
  "mkPlayer i score rank ms =
     \<lparr>matches = ms, id_player = i, scoreWithoutAcceleration = score, rankIndex = rank,
      colorPreference = COLOR_NONE, absoluteColorPreference = False,
      strongColorPreference = False\<rparr>"

text \<open>
  Player A, rounds in order: white, black, a bye, white; most recent first the played
  colors are white, black, white. Player B: white, black, a forfeit, black; most recent
  first black, black, white.
\<close>

definition examplePlayerA :: Player where
  "examplePlayerA = mkPlayer 0 0 0
     [playedMatch 2 COLOR_WHITE, playedMatch 3 COLOR_BLACK, unplayedMatch 0,
      playedMatch 4 COLOR_WHITE]"

definition examplePlayerB :: Player where
  "examplePlayerB = mkPlayer 1 0 1
     [playedMatch 3 COLOR_WHITE, playedMatch 2 COLOR_BLACK,
      \<lparr>opponent = 4, color = COLOR_WHITE, gameWasPlayed = False\<rparr>,
      playedMatch 5 COLOR_BLACK]"

text \<open>A player whose only round so far was a bye.\<close>

definition examplePlayerNew :: Player where
  "examplePlayerNew = mkPlayer 6 0 6 [unplayedMatch 6]"

subsection \<open>A tournament with five players and three pairings\<close>

text \<open>
  An instance of the external comparison: a player ranks below another with a lower
  score, and at equal scores with a larger rank index.
\<close>

definition scoreRankCompare :: rankCompare where
  "scoreRankCompare player0 player1 \<longleftrightarrow>
     (scoreWithoutAcceleration player0, rankIndex player1)
       < (scoreWithoutAcceleration player1, rankIndex player0)"

text \<open>
  Scores 5, 3, 4, 4, 6 at the indices 0 to 4; the rank indices follow the standings.
  The pairings: 5 against 3, 4 against 4 (the black player is the higher ranked one),
  and a bye of the player with score 6.
\<close>

definition exampleTournament :: Tournament where
  "exampleTournament =
     \<lparr>players = [mkPlayer 0 5 1 [], mkPlayer 1 3 4 [], mkPlayer 2 4 2 [],
                 mkPlayer 3 4 3 [], mkPlayer 4 6 0 []],
      playedRounds = 0\<rparr>"

definition examplePair53 :: Pairing where
  "examplePair53 = \<lparr>white = 0, black = 1\<rparr>"

definition examplePair44 :: Pairing where
  "examplePair44 = \<lparr>white = 3, black = 2\<rparr>"

definition exampleBye6 :: Pairing where
  "exampleBye6 = \<lparr>white = 4, black = 4\<rparr>"





lemmas example_defs = exampleTournament_def examplePair53_def examplePair44_def
  exampleBye6_def mkPlayer_def scoreRankCompare_def

lemmas compare_defs = sortResults_def sortResultsCompare_def higherInPair_def
  playerAt_def lowerInPair_def

subsection \<open>A checklist after one round\<close>

text \<open>Decimal digits, for the two \<^verbatim>\<open>toString\<close> parameters of the examples.\<close>

fun toDecimal :: "nat \<Rightarrow> string" where
  "toDecimal n =
     (if n < 10 then [''0123456789'' ! n]
      else toDecimal (n div 10) @ [''0123456789'' ! (n mod 10)])"

declare toDecimal.simps [simp del]

definition exampleEnvironment :: "bool \<Rightarrow> Environment" where
  "exampleEnvironment ndebugDefined =
     \<lparr>npos = 2 ^ 64 - 1, intMax = 2 ^ 31 - 1, ndebug = ndebugDefined,
      toString = toDecimal,
      toStringDecimal = (\<lambda>n places. toDecimal (n div 10) @ ''.'' @ toDecimal (n mod 10)),
      scoreWithAcceleration = scoreWithoutAcceleration\<rparr>"

definition exampleRoundOne :: Tournament where
  "exampleRoundOne =
     \<lparr>players = [mkPlayer 0 10 0 [playedMatch 1 COLOR_WHITE],
                 mkPlayer 1 0 1 [playedMatch 0 COLOR_BLACK]],
      playedRounds = 1\<rparr>"

text \<open>
The same players in a tournament that counts two played rounds.
\<close>

definition exampleShortHistory :: Tournament where
  "exampleShortHistory = exampleRoundOne\<lparr>playedRounds := 2\<rparr>"

definition allMemory :: "allocSite \<Rightarrow> bool" where
  "allMemory site = True"

definition memoryExceptAt :: "allocSite \<Rightarrow> allocSite \<Rightarrow> bool" where
  "memoryExceptAt failing site \<longleftrightarrow> site \<noteq> failing"

lemmas checklist_defs = printChecklist_def checklistBody_def computeColumnWidths_def
  getHeader_def getRow_def preferenceString_def endl_def tab_def exampleEnvironment_def
  exampleRoundOne_def mkPlayer_def playedMatch_def allMemory_def memoryExceptAt_def
  toDecimal.simps

section \<open>Properties of the color-history scan\<close>

lemma skipUnplayedGames_idem:
  "skipUnplayedGames (skipUnplayedGames ms) = skipUnplayedGames ms"
  by (induction ms) auto

lemma skipUnplayedGames_filter:
  "filter gameWasPlayed (skipUnplayedGames ms) = filter gameWasPlayed ms"
  by (induction ms) auto

lemma skipUnplayedGames_head:
  "skipUnplayedGames ms = m # r \<Longrightarrow> gameWasPlayed m"
  by (induction ms) (auto split: if_splits)

lemma skipUnplayedGames_fixed_Cons:
  "skipUnplayedGames (m # r) = m # r \<longleftrightarrow> gameWasPlayed m"
  using skipUnplayedGames_head[of "m # r" m r] by auto

text \<open>
  On iterators that rest on a played game (or on the end), the loop computes the
  divergence of the played colors still ahead.
\<close>

lemma colorDifferenceLoop_refines:
  "skipUnplayedGames it0 = it0 \<Longrightarrow> skipUnplayedGames it1 = it1 \<Longrightarrow>
   (case colorDifferenceLoop it0 it1 of (a, b) \<Rightarrow> (colorAt a, colorAt b)) =
   mostRecentDivergence (map color (filter gameWasPlayed it0))
     (map color (filter gameWasPlayed it1))"
proof (induction it0 it1 rule: colorDifferenceLoop.induct)
  case (1 m0 r0 m1 r1)
  from "1.prems" have p0: "gameWasPlayed m0" and p1: "gameWasPlayed m1"
    by (simp_all only: skipUnplayedGames_fixed_Cons)
  show ?case
  proof (cases "color m0 = color m1")
    case True
    have "(case colorDifferenceLoop (skipUnplayedGames r0) (skipUnplayedGames r1) of
            (a, b) \<Rightarrow> (colorAt a, colorAt b)) =
          mostRecentDivergence (map color (filter gameWasPlayed (skipUnplayedGames r0)))
            (map color (filter gameWasPlayed (skipUnplayedGames r1)))"
      using "1.IH"[OF True] by (simp add: skipUnplayedGames_idem)
    with True p0 p1 show ?thesis by (simp add: skipUnplayedGames_filter)
  next
    case False
    with p0 p1 show ?thesis by simp
  qed
next
  case (2 it1)
  show ?case
  proof (cases it1)
    case Nil
    then show ?thesis by simp
  next
    case (Cons m1 r1)
    with "2.prems" have "gameWasPlayed m1"
      by (simp only: skipUnplayedGames_fixed_Cons)
    with Cons show ?thesis by simp
  qed
next
  case (3 m0 r0)
  then have "gameWasPlayed m0"
    by (simp only: skipUnplayedGames_fixed_Cons)
  then show ?case by simp
qed

lemma findFirstColorDifference_refines:
  "findFirstColorDifference player0 player1 =
     mostRecentDivergence (playedColors player0) (playedColors player1)"
  unfolding findFirstColorDifference_def playedColors_def Let_def
  using colorDifferenceLoop_refines[of "skipUnplayedGames (rev (matches player0))"
          "skipUnplayedGames (rev (matches player1))"]
  by (simp add: skipUnplayedGames_idem skipUnplayedGames_filter)

lemma mostRecentDivergence_prefix_left:
  "mostRecentDivergence as (as @ rest) =
     (COLOR_NONE, case rest of [] \<Rightarrow> COLOR_NONE | c # _ \<Rightarrow> c)"
  by (induction as) (auto split: list.splits)

lemma mostRecentDivergence_prefix_right:
  "mostRecentDivergence (bs @ rest) bs =
     (case rest of [] \<Rightarrow> COLOR_NONE | c # _ \<Rightarrow> c, COLOR_NONE)"
  by (induction bs) (auto split: list.splits)

lemma playedColors_insert_unplayed:
  "\<not> gameWasPlayed m \<Longrightarrow>
   playedColors (p\<lparr>matches := xs @ m # ys\<rparr>) = playedColors (p\<lparr>matches := xs @ ys\<rparr>)"
  by (simp add: playedColors_def)

lemma examplePlayer_colors:
  "playedColors examplePlayerA = [COLOR_WHITE, COLOR_BLACK, COLOR_WHITE]"
  "playedColors examplePlayerB = [COLOR_BLACK, COLOR_BLACK, COLOR_WHITE]"
  "playedColors examplePlayerNew = []"
  by (simp_all add: playedColors_def examplePlayerA_def examplePlayerB_def
      examplePlayerNew_def mkPlayer_def playedMatch_def unplayedMatch_def)

text \<open>
  C2. For every two players, findFirstColorDifference scans both match sequences from
  the most recent round backward, ignores the matches with gameWasPlayed = false, moves
  on in lockstep while the two colors are equal and stops at the first position where
  they differ or where a side is exhausted, returning the colors there: it computes
  mostRecentDivergence of the two players' played colors. In particular, played colors
  [white, black, white] against [black, black, white] give (white, black).
\<close>

theorem C2_findFirstColorDifference_scan:
  "findFirstColorDifference player0 player1 =
     mostRecentDivergence (playedColors player0) (playedColors player1)
   \<and> (playedColors player0 = [COLOR_WHITE, COLOR_BLACK, COLOR_WHITE]
        \<and> playedColors player1 = [COLOR_BLACK, COLOR_BLACK, COLOR_WHITE]
      \<longrightarrow> findFirstColorDifference player0 player1 = (COLOR_WHITE, COLOR_BLACK))"
  by (simp add: findFirstColorDifference_refines)

theorem C2_findFirstColorDifference_scan_witness:
  "playedColors examplePlayerA = [COLOR_WHITE, COLOR_BLACK, COLOR_WHITE]
   \<and> playedColors examplePlayerB = [COLOR_BLACK, COLOR_BLACK, COLOR_WHITE]
   \<and> findFirstColorDifference examplePlayerA examplePlayerB = (COLOR_WHITE, COLOR_BLACK)"
  using C2_findFirstColorDifference_scan[of examplePlayerA examplePlayerB]
  by (simp add: examplePlayer_colors)

text \<open>
  C6. A side whose scan over played games is exhausted before a divergence is found gets
  COLOR_NONE, the other side its color at that position (COLOR_NONE too when it is
  exhausted as well). So a player without played games gets COLOR_NONE, and two players
  with the same played color history get (COLOR_NONE, COLOR_NONE). The function is
  total: these are ordinary results.
\<close>

theorem C6_exhausted_side_gets_no_color:
  "(playedColors player1 = playedColors player0 @ rest \<longrightarrow>
      findFirstColorDifference player0 player1 =
        (COLOR_NONE, case rest of [] \<Rightarrow> COLOR_NONE | c # _ \<Rightarrow> c))
   \<and> (playedColors player0 = playedColors player1 @ rest \<longrightarrow>
      findFirstColorDifference player0 player1 =
        (case rest of [] \<Rightarrow> COLOR_NONE | c # _ \<Rightarrow> c, COLOR_NONE))
   \<and> (filter gameWasPlayed (matches player0) = [] \<longrightarrow>
      fst (findFirstColorDifference player0 player1) = COLOR_NONE)
   \<and> (filter gameWasPlayed (matches player1) = [] \<longrightarrow>
      snd (findFirstColorDifference player0 player1) = COLOR_NONE)
   \<and> (playedColors player0 = playedColors player1 \<longrightarrow>
      findFirstColorDifference player0 player1 = (COLOR_NONE, COLOR_NONE))"
proof (intro conjI impI)
  assume "playedColors player1 = playedColors player0 @ rest"
  then show "findFirstColorDifference player0 player1 =
      (COLOR_NONE, case rest of [] \<Rightarrow> COLOR_NONE | c # _ \<Rightarrow> c)"
    by (simp add: findFirstColorDifference_refines mostRecentDivergence_prefix_left)
next
  assume "playedColors player0 = playedColors player1 @ rest"
  then show "findFirstColorDifference player0 player1 =
      (case rest of [] \<Rightarrow> COLOR_NONE | c # _ \<Rightarrow> c, COLOR_NONE)"
    by (simp add: findFirstColorDifference_refines mostRecentDivergence_prefix_right)
next
  assume "filter gameWasPlayed (matches player0) = []"
  then have "playedColors player0 = []"
    by (simp add: playedColors_def flip: rev_filter)
  then show "fst (findFirstColorDifference player0 player1) = COLOR_NONE"
    using mostRecentDivergence_prefix_left[of "[]" "playedColors player1"]
    by (simp add: findFirstColorDifference_refines)
next
  assume "filter gameWasPlayed (matches player1) = []"
  then have "playedColors player1 = []"
    by (simp add: playedColors_def flip: rev_filter)
  then show "snd (findFirstColorDifference player0 player1) = COLOR_NONE"
    using mostRecentDivergence_prefix_right[of "[]" "playedColors player0"]
    by (simp add: findFirstColorDifference_refines)
next
  assume "playedColors player0 = playedColors player1"
  then show "findFirstColorDifference player0 player1 = (COLOR_NONE, COLOR_NONE)"
    using mostRecentDivergence_prefix_left[of "playedColors player1" "[]"]
    by (simp add: findFirstColorDifference_refines)
qed

theorem C6_exhausted_side_gets_no_color_witness:
  "filter gameWasPlayed (matches examplePlayerNew) = []
   \<and> fst (findFirstColorDifference examplePlayerNew examplePlayerB) = COLOR_NONE
   \<and> filter gameWasPlayed (matches examplePlayerNew) = []
   \<and> snd (findFirstColorDifference examplePlayerA examplePlayerNew) = COLOR_NONE
   \<and> playedColors examplePlayerB = playedColors examplePlayerNew @ playedColors examplePlayerB
   \<and> findFirstColorDifference examplePlayerNew examplePlayerB = (COLOR_NONE, COLOR_BLACK)
   \<and> playedColors examplePlayerA = playedColors examplePlayerNew @ playedColors examplePlayerA
   \<and> findFirstColorDifference examplePlayerA examplePlayerNew = (COLOR_WHITE, COLOR_NONE)
   \<and> playedColors examplePlayerA = playedColors examplePlayerA
   \<and> findFirstColorDifference examplePlayerA examplePlayerA = (COLOR_NONE, COLOR_NONE)"
proof -
  have new: "filter gameWasPlayed (matches examplePlayerNew) = []"
    by (simp add: examplePlayerNew_def mkPlayer_def unplayedMatch_def)
  have b: "playedColors examplePlayerB =
      playedColors examplePlayerNew @ playedColors examplePlayerB"
    and a: "playedColors examplePlayerA =
      playedColors examplePlayerNew @ playedColors examplePlayerA"
    by (simp_all add: examplePlayer_colors)
  show ?thesis
    using new a b
      C6_exhausted_side_gets_no_color[of examplePlayerB examplePlayerNew
        "playedColors examplePlayerB"]
      C6_exhausted_side_gets_no_color[of examplePlayerNew examplePlayerA
        "playedColors examplePlayerA"]
      C6_exhausted_side_gets_no_color[of examplePlayerA examplePlayerA "[]"]
    by (simp add: examplePlayer_colors)
qed

text \<open>
  C7. A match with gameWasPlayed = false is transparent: inserted at any position of
  either player's history, it leaves the result of findFirstColorDifference unchanged.
\<close>

theorem C7_unplayed_matches_transparent:
  "\<not> gameWasPlayed m \<longrightarrow>
     findFirstColorDifference (player0\<lparr>matches := xs @ m # ys\<rparr>) player1 =
       findFirstColorDifference (player0\<lparr>matches := xs @ ys\<rparr>) player1
     \<and> findFirstColorDifference player0 (player1\<lparr>matches := xs @ m # ys\<rparr>) =
       findFirstColorDifference player0 (player1\<lparr>matches := xs @ ys\<rparr>)"
  by (simp add: findFirstColorDifference_refines playedColors_insert_unplayed)

theorem C7_unplayed_matches_transparent_witness:
  "\<not> gameWasPlayed (unplayedMatch 0)
   \<and> findFirstColorDifference
       (examplePlayerA\<lparr>matches := [playedMatch 2 COLOR_WHITE] @ unplayedMatch 0 #
          [playedMatch 3 COLOR_BLACK]\<rparr>) examplePlayerB =
     findFirstColorDifference
       (examplePlayerA\<lparr>matches := [playedMatch 2 COLOR_WHITE] @
          [playedMatch 3 COLOR_BLACK]\<rparr>) examplePlayerB
   \<and> findFirstColorDifference
       (examplePlayerA\<lparr>matches := [playedMatch 2 COLOR_WHITE] @
          [playedMatch 3 COLOR_BLACK]\<rparr>) examplePlayerB = (COLOR_WHITE, COLOR_BLACK)"
proof -
  have u: "\<not> gameWasPlayed (unplayedMatch 0)"
    by (simp add: unplayedMatch_def)
  have v: "findFirstColorDifference
       (examplePlayerA\<lparr>matches := [playedMatch 2 COLOR_WHITE] @
          [playedMatch 3 COLOR_BLACK]\<rparr>) examplePlayerB = (COLOR_WHITE, COLOR_BLACK)"
    by (simp add: findFirstColorDifference_refines examplePlayer_colors)
       (simp add: playedColors_def playedMatch_def)
  show ?thesis
    using u v C7_unplayed_matches_transparent[where m = "unplayedMatch 0"
        and ?player0.0 = examplePlayerA and xs = "[playedMatch 2 COLOR_WHITE]"
        and ys = "[playedMatch 3 COLOR_BLACK]" and ?player1.0 = examplePlayerB]
    by simp
qed

section \<open>Properties of sortResults\<close>

subsection \<open>The comparison orders the sort keys\<close>

lemma higherInPair_valid:
  "validPairing t pair \<Longrightarrow> higherInPair cmp t pair = Some (higherOf cmp t pair)"
  by (simp add: higherInPair_def playerAt_def validPairing_def higherOf_def)

lemma higherInPair_invalid:
  "\<not> validPairing t pair \<Longrightarrow> higherInPair cmp t pair = None"
  by (auto simp add: higherInPair_def playerAt_def validPairing_def)

lemma sortResultsCompare_key:
  "validPairing t pair0 \<Longrightarrow> validPairing t pair1 \<Longrightarrow>
   sortResultsCompare cmp t pair0 pair1 = Some (sortKey cmp t pair0 < sortKey cmp t pair1)"
  by (auto simp add: sortResultsCompare_def higherInPair_valid sortKey_def lowerOf_def isBye_def Let_def)

lemma sortResultsCompare_None:
  "sortResultsCompare cmp t pair0 pair1 = None \<longleftrightarrow>
     \<not> validPairing t pair0 \<or> \<not> validPairing t pair1"
  by (cases "validPairing t pair0"; cases "validPairing t pair1")
     (simp_all add: sortResultsCompare_def higherInPair_valid higherInPair_invalid Let_def)

lemma sortResultsCompare_cases:
  "sortResultsCompare cmp t a b =
     (if validPairing t a \<and> validPairing t b
      then Some (sortKey cmp t a < sortKey cmp t b) else None)"
  using sortResultsCompare_None[of cmp t a b] by (auto simp add: sortResultsCompare_key)

subsection \<open>The model of the list sort is the stable sort by the key\<close>

lemma insertSorted_key:
  fixes k :: "'a \<Rightarrow> 'k::linorder"
  assumes "\<forall>y\<in>set ys. lt y x = Some (k y < k x)"
  shows "insertSorted lt x ys = Some (insort_key k x ys)"
  using assms by (induction ys) (auto simp: not_less)

lemma listSort_key:
  fixes k :: "'a \<Rightarrow> 'k::linorder"
  assumes "\<forall>a\<in>set xs. \<forall>b\<in>set xs. lt a b = Some (k a < k b)"
  shows "listSort lt xs = Some (sort_key k xs)"
  using assms
proof (induction xs)
  case Nil
  then show ?case by simp
next
  case (Cons x xs)
  then have "listSort lt xs = Some (sort_key k xs)" by simp
  moreover have "insertSorted lt x (sort_key k xs) = Some (insort_key k x (sort_key k xs))"
    using Cons.prems by (intro insertSorted_key) simp
  ultimately show ?case by simp
qed

lemma sortResults_sort_key:
  assumes "\<forall>p\<in>set pairs. validPairing t p"
  shows "sortResults cmp pairs t = Some (sort_key (sortKey cmp t) pairs)"
  unfolding sortResults_def using assms
  by (intro listSort_key) (simp add: sortResultsCompare_key)

lemma sorted_key_position:
  fixes k :: "'a \<Rightarrow> 'k::linorder"
  assumes "sorted (map k out)" "k (out ! i) < k (out ! j)" "i < length out" "j < length out"
  shows "i < j"
proof (rule ccontr)
  assume "\<not> i < j"
  then have "j \<le> i" by simp
  then have "map k out ! j \<le> map k out ! i"
    using assms(1,3) by (intro sorted_nth_mono) simp_all
  with assms show False by simp
qed

lemma insertSorted_mset:
  "insertSorted lt x ys = Some zs \<Longrightarrow> mset zs = add_mset x (mset ys)"
proof (induction ys arbitrary: zs)
  case Nil
  then show ?case by auto
next
  case (Cons y ys)
  then show ?case by (auto split: option.splits if_splits)
qed

lemma listSort_mset: "listSort lt xs = Some ys \<Longrightarrow> mset ys = mset xs"
proof (induction xs arbitrary: ys)
  case Nil
  then show ?case by simp
next
  case (Cons x xs)
  then show ?case by (auto split: option.splits dest: insertSorted_mset)
qed

lemma insertSorted_invalid:
  "ys \<noteq> [] \<Longrightarrow> \<not> validPairing t x \<Longrightarrow>
   insertSorted (sortResultsCompare cmp t) x ys = None"
  by (cases ys) (simp_all add: sortResultsCompare_cases)

lemma sortResults_undefined_iff:
  "sortResults cmp pairs t = None \<longleftrightarrow>
     2 \<le> length pairs \<and> (\<exists>p\<in>set pairs. \<not> validPairing t p)"
proof (induction pairs)
  case Nil
  then show ?case by (simp add: sortResults_def)
next
  case (Cons x xs)
  let ?C = "sortResultsCompare cmp t"
  show ?case
  proof (cases "listSort ?C xs")
    case None
    with Cons show ?thesis by (auto simp add: sortResults_def)
  next
    case (Some ys)
    then have ms: "mset ys = mset xs" by (rule listSort_mset)
    then have sets: "set ys = set xs" by (metis set_mset_mset)
    from ms have len: "length ys = length xs" by (metis size_mset)
    from Some Cons have ih: "\<not> (2 \<le> length xs \<and> (\<exists>p\<in>set xs. \<not> validPairing t p))"
      by (simp add: sortResults_def)
    have step: "sortResults cmp (x # xs) t = insertSorted ?C x ys"
      using Some by (simp add: sortResults_def)
    show ?thesis
    proof (cases "xs = []")
      case True
      with Some show ?thesis by (simp add: sortResults_def)
    next
      case False
      then have ne: "ys \<noteq> []" using len by auto
      show ?thesis
      proof (cases "validPairing t x")
        case invalid: False
        then show ?thesis
          using False insertSorted_invalid[OF ne invalid] step
          by (cases xs) auto
      next
        case valid: True
        show ?thesis
        proof (cases "\<forall>p\<in>set xs. validPairing t p")
          case True
          then have "insertSorted ?C x ys = Some (insort_key (sortKey cmp t) x ys)"
            using valid sets by (intro insertSorted_key) (simp add: sortResultsCompare_key)
          with True valid step show ?thesis by simp
        next
          case bad: False
          with ih have "length xs < 2" by auto
          with False obtain y where y: "xs = [y]"
            by (cases xs) (auto simp: less_Suc_eq)
          with bad have "\<not> validPairing t y" by simp
          moreover from y len obtain y' where "ys = [y']" by (cases ys) auto
          with sets y have "ys = [y]" by simp
          ultimately show ?thesis
            using step y by (simp add: sortResultsCompare_cases)
        qed
      qed
    qed
  qed
qed

subsection \<open>Keys of pairings\<close>

lemma higherOf_in_pair: "higherOf cmp t pair = white pair \<or> higherOf cmp t pair = black pair"
  by (simp add: higherOf_def)

lemma higherOf_valid: "validPairing t pair \<Longrightarrow> higherOf cmp t pair < length (players t)"
  by (simp add: higherOf_def validPairing_def)

lemma sortKey_eq_shares_player:
  assumes "distinct (map rankIndex (players t))"
    and "validPairing t a" "validPairing t b"
    and "sortKey cmp t a = sortKey cmp t b"
  shows "{white a, black a} \<inter> {white b, black b} \<noteq> {}"
proof -
  let ?ranks = "map rankIndex (players t)"
  have ha: "higherOf cmp t a < length ?ranks" and hb: "higherOf cmp t b < length ?ranks"
    using assms(2,3) by (simp_all add: higherOf_valid)
  from assms(4) have "?ranks ! higherOf cmp t a = ?ranks ! higherOf cmp t b"
    using ha hb by (simp add: sortKey_def)
  then have "higherOf cmp t a = higherOf cmp t b"
    using nth_eq_iff_index_eq[OF assms(1) ha hb] by blast
  then show ?thesis
    using higherOf_in_pair[of cmp t a] higherOf_in_pair[of cmp t b] by auto
qed

lemma sortKey_swapColors:
  assumes "strictTotalOrderOn (set (players t)) cmp" "validPairing t pair"
  shows "sortKey cmp t (swapColors pair) = sortKey cmp t pair"
proof -
  let ?w = "players t ! white pair" and ?b = "players t ! black pair"
  have mem: "?w \<in> set (players t)" "?b \<in> set (players t)"
    using assms(2) by (simp_all add: validPairing_def)
  have asym: "\<not> (cmp ?w ?b \<and> cmp ?b ?w)"
    using assms(1) mem unfolding strictTotalOrderOn_def by blast
  have total: "?w \<noteq> ?b \<Longrightarrow> cmp ?w ?b \<or> cmp ?b ?w"
    using assms(1) mem unfolding strictTotalOrderOn_def by blast
  have sw: "white (swapColors pair) = black pair" "black (swapColors pair) = white pair"
    by (simp_all add: swapColors_def)
  consider (below) "cmp ?w ?b" "\<not> cmp ?b ?w" | (above) "cmp ?b ?w" "\<not> cmp ?w ?b"
    | (same) "?w = ?b" "\<not> cmp ?w ?b" "\<not> cmp ?b ?w"
    using asym total by blast
  then show ?thesis
  proof cases
    case below
    then have "higherOf cmp t pair = black pair" "higherOf cmp t (swapColors pair) = black pair"
      by (simp_all add: higherOf_def sw)
    then show ?thesis
      by (simp add: sortKey_def lowerOf_def lowerInPair_def isBye_def sw eq_commute)
  next
    case above
    then have "higherOf cmp t pair = white pair" "higherOf cmp t (swapColors pair) = white pair"
      by (simp_all add: higherOf_def sw)
    then show ?thesis
      by (simp add: sortKey_def lowerOf_def lowerInPair_def isBye_def sw eq_commute)
  next
    case same
    then have h: "higherOf cmp t pair = white pair"
      "higherOf cmp t (swapColors pair) = black pair"
      by (simp_all add: higherOf_def sw)
    have l: "players t ! lowerOf cmp t pair = ?b"
      "players t ! lowerOf cmp t (swapColors pair) = ?b"
      using same(1) by (simp_all add: lowerOf_def lowerInPair_def h sw)
    show ?thesis
      unfolding sortKey_def l h using same(1) by (simp add: isBye_def sw eq_commute)
  qed
qed

lemma validPairing_swapColors: "validPairing t (swapColors pair) = validPairing t pair"
  by (auto simp add: validPairing_def swapColors_def)

lemma sortKey_bye_greater:
  "isBye a \<Longrightarrow> \<not> isBye b \<Longrightarrow> sortKey cmp t b < sortKey cmp t a"
  by (simp add: sortKey_def)

lemma insertSorted_map:
  assumes "\<And>a b. lt (f a) (f b) = lt a b"
  shows "insertSorted lt (f x) (map f ys) = map_option (map f) (insertSorted lt x ys)"
  by (induction ys) (auto simp: assms option.map_comp comp_def split: option.splits)

lemma listSort_map:
  assumes "\<And>a b. lt (f a) (f b) = lt a b"
  shows "listSort lt (map f xs) = map_option (map f) (listSort lt xs)"
  by (induction xs) (auto simp: insertSorted_map[of lt f, OF assms] split: option.splits)

subsection \<open>The example tournament\<close>

lemma example_valid:
  "validPairing exampleTournament examplePair53"
  "validPairing exampleTournament examplePair44"
  "validPairing exampleTournament exampleBye6"
  by (simp_all add: validPairing_def example_defs)

lemma example_strict_total:
  "strictTotalOrderOn (set (players exampleTournament)) scoreRankCompare"
  by (simp add: example_defs strictTotalOrderOn_def)

lemma example_sorted:
  "sortResults scoreRankCompare [examplePair44, examplePair53, exampleBye6] exampleTournament
     = Some [examplePair53, examplePair44, exampleBye6]"
  "sortResults scoreRankCompare [exampleBye6, examplePair44, examplePair53] exampleTournament
     = Some [examplePair53, examplePair44, exampleBye6]"
  by (simp_all add: example_defs compare_defs)


lemma example_compare:
  "sortResultsCompare scoreRankCompare exampleTournament examplePair53 examplePair44 = Some True"
  "sortResultsCompare scoreRankCompare exampleTournament examplePair44 examplePair53 = Some False"
  "sortResultsCompare scoreRankCompare exampleTournament examplePair44 exampleBye6 = Some True"
  "sortResultsCompare scoreRankCompare exampleTournament exampleBye6 examplePair44 = Some False"
  "sortResultsCompare scoreRankCompare exampleTournament examplePair53 exampleBye6 = Some True"
  "sortResultsCompare scoreRankCompare exampleTournament exampleBye6 examplePair53 = Some False"
  by (simp_all add: example_defs compare_defs)

subsection \<open>Order of the scores\<close>










subsection \<open>Strict total order\<close>

text \<open>
  C3. Let the external comparison be a strict total order on the players of the
  tournament, let the rank indices of the players be pairwise different, and let S be a
  set of valid pairings no two of which share a player. Then on S the comparison of
  sortResults is irreflexive, of two different pairings exactly one is less than the
  other, and the comparison is transitive.
\<close>

theorem C3_strict_total_order:
  assumes "strictTotalOrderOn (set (players t)) cmp"
    and "distinct (map rankIndex (players t))"
    and "\<forall>p\<in>S. validPairing t p"
    and "\<forall>a\<in>S. \<forall>b\<in>S. a \<noteq> b \<longrightarrow> {white a, black a} \<inter> {white b, black b} = {}"
  shows "(\<forall>a\<in>S. sortResultsCompare cmp t a a = Some False)
    \<and> (\<forall>a\<in>S. \<forall>b\<in>S. a \<noteq> b \<longrightarrow>
          (sortResultsCompare cmp t a b = Some True \<and> sortResultsCompare cmp t b a = Some False)
          \<or> (sortResultsCompare cmp t a b = Some False \<and> sortResultsCompare cmp t b a = Some True))
    \<and> (\<forall>a\<in>S. \<forall>b\<in>S. \<forall>c\<in>S.
          sortResultsCompare cmp t a b = Some True \<longrightarrow> sortResultsCompare cmp t b c = Some True
          \<longrightarrow> sortResultsCompare cmp t a c = Some True)"
proof (intro conjI ballI impI)
  fix a assume "a \<in> S"
  then show "sortResultsCompare cmp t a a = Some False"
    using assms(3) by (simp add: sortResultsCompare_key)
next
  fix a b assume ab: "a \<in> S" "b \<in> S" "a \<noteq> b"
  then have "sortKey cmp t a \<noteq> sortKey cmp t b"
    using sortKey_eq_shares_player[OF assms(2), of a b cmp] assms(3,4) by blast
  then have "sortKey cmp t a < sortKey cmp t b \<or> sortKey cmp t b < sortKey cmp t a"
    by (rule linorder_neqE) simp_all
  then show "(sortResultsCompare cmp t a b = Some True \<and> sortResultsCompare cmp t b a = Some False)
          \<or> (sortResultsCompare cmp t a b = Some False \<and> sortResultsCompare cmp t b a = Some True)"
    using ab assms(3) by (auto simp add: sortResultsCompare_key simp del: less_prod_simp)
next
  fix a b c assume "a \<in> S" "b \<in> S" "c \<in> S"
    and "sortResultsCompare cmp t a b = Some True" "sortResultsCompare cmp t b c = Some True"
  then show "sortResultsCompare cmp t a c = Some True"
    using assms(3) by (auto simp add: sortResultsCompare_key simp del: less_prod_simp)
qed

theorem C3_strict_total_order_witness:
  "strictTotalOrderOn (set (players exampleTournament)) scoreRankCompare
   \<and> distinct (map rankIndex (players exampleTournament))
   \<and> validPairing exampleTournament examplePair53
   \<and> validPairing exampleTournament examplePair44
   \<and> validPairing exampleTournament exampleBye6
   \<and> {white examplePair53, black examplePair53} \<inter> {white examplePair44, black examplePair44} = {}
   \<and> {white examplePair53, black examplePair53} \<inter> {white exampleBye6, black exampleBye6} = {}
   \<and> {white examplePair44, black examplePair44} \<inter> {white exampleBye6, black exampleBye6} = {}
   \<and> sortResultsCompare scoreRankCompare exampleTournament examplePair53 examplePair53
       = Some False
   \<and> sortResultsCompare scoreRankCompare exampleTournament examplePair53 examplePair44
       = Some True
   \<and> sortResultsCompare scoreRankCompare exampleTournament examplePair44 examplePair53
       = Some False
   \<and> sortResultsCompare scoreRankCompare exampleTournament examplePair44 exampleBye6
       = Some True
   \<and> sortResultsCompare scoreRankCompare exampleTournament examplePair53 exampleBye6
       = Some True"
proof -
  let ?S = "{examplePair53, examplePair44, exampleBye6}"
  have d: "distinct (map rankIndex (players exampleTournament))"
    by (simp add: example_defs)
  have v: "\<forall>p\<in>?S. validPairing exampleTournament p"
    by (simp add: example_valid)
  have disj: "\<forall>a\<in>?S. \<forall>b\<in>?S. a \<noteq> b \<longrightarrow> {white a, black a} \<inter> {white b, black b} = {}"
    by (simp add: example_defs)
  from C3_strict_total_order[OF example_strict_total d v disj]
  show ?thesis
    using d by (simp add: example_strict_total example_valid example_compare)
      (simp add: example_defs)
qed

subsection \<open>Byes\<close>

text \<open>
  C4. On a list of valid pairings sortResults returns a permutation of the list in
  which every bye (white = black) stands after every pairing that is not a bye,
  whatever the scores, the ranks and the external comparison are.
\<close>

theorem C4_byes_last:
  assumes "\<forall>p\<in>set pairs. validPairing t p"
  shows "\<exists>out. sortResults cmp pairs t = Some out \<and> mset out = mset pairs
    \<and> (\<forall>i<length out. \<forall>j<length out.
          white (out ! i) = black (out ! i) \<and> white (out ! j) \<noteq> black (out ! j) \<longrightarrow> j < i)"
proof (intro exI conjI allI impI)
  let ?out = "sort_key (sortKey cmp t) pairs"
  show "sortResults cmp pairs t = Some ?out"
    using assms by (rule sortResults_sort_key)
  show "mset ?out = mset pairs" by simp
  fix i j
  assume i: "i < length ?out" and j: "j < length ?out"
    and bye: "white (?out ! i) = black (?out ! i) \<and> white (?out ! j) \<noteq> black (?out ! j)"
  from bye have "sortKey cmp t (?out ! j) < sortKey cmp t (?out ! i)"
    by (intro sortKey_bye_greater) (simp_all only: isBye_def not_False_eq_True)
  then show "j < i"
    using i j sorted_key_position[of "sortKey cmp t" ?out j i] by simp
qed

theorem C4_byes_last_witness:
  "validPairing exampleTournament exampleBye6
   \<and> validPairing exampleTournament examplePair44
   \<and> validPairing exampleTournament examplePair53
   \<and> sortResults scoreRankCompare [exampleBye6, examplePair44, examplePair53] exampleTournament
       = Some [examplePair53, examplePair44, exampleBye6]
   \<and> white exampleBye6 = black exampleBye6
   \<and> white examplePair44 \<noteq> black examplePair44
   \<and> white examplePair53 \<noteq> black examplePair53"
proof -
  have v: "\<forall>p\<in>set [exampleBye6, examplePair44, examplePair53].
      validPairing exampleTournament p"
    by (simp add: example_valid)
  from C4_byes_last[OF v, of scoreRankCompare]
  show ?thesis
    by (simp add: example_valid example_sorted) (simp add: example_defs)
qed

subsection \<open>Orientation\<close>

text \<open>
  C5. Let the external comparison be a strict total order on the players of the
  tournament. Then the comparison of sortResults gives the same answer for a pairing
  and for the same pairing with white and black exchanged, on either side; and sorting
  a list in which a pairing is given the other way round gives the sorted list with
  that pairing the other way round, at the same position.
\<close>

theorem C5_orientation_independent:
  assumes "strictTotalOrderOn (set (players t)) cmp"
  shows "sortResultsCompare cmp t (swapColors pair) other = sortResultsCompare cmp t pair other
    \<and> sortResultsCompare cmp t other (swapColors pair) = sortResultsCompare cmp t other pair
    \<and> sortResults cmp (map (\<lambda>p. if p = pair then swapColors pair else p) pairs) t =
        map_option (map (\<lambda>p. if p = pair then swapColors pair else p))
          (sortResults cmp pairs t)"
proof -
  have swap: "sortResultsCompare cmp t (swapColors pair) x = sortResultsCompare cmp t pair x"
    "sortResultsCompare cmp t x (swapColors pair) = sortResultsCompare cmp t x pair" for x
    using sortKey_swapColors[OF assms, of pair]
    by (auto simp add: sortResultsCompare_cases validPairing_swapColors)
  let ?f = "\<lambda>p. if p = pair then swapColors pair else p"
  have "sortResultsCompare cmp t (?f a) (?f b) = sortResultsCompare cmp t a b" for a b
    by (simp add: swap)
  then have "listSort (sortResultsCompare cmp t) (map ?f pairs) =
      map_option (map ?f) (listSort (sortResultsCompare cmp t) pairs)"
    by (rule listSort_map)
  then show ?thesis by (simp add: swap sortResults_def)
qed

theorem C5_orientation_independent_witness:
  "strictTotalOrderOn (set (players exampleTournament)) scoreRankCompare
   \<and> swapColors examplePair44 = \<lparr>white = 2, black = 3\<rparr>
   \<and> sortResultsCompare scoreRankCompare exampleTournament (swapColors examplePair44)
       examplePair53 = Some False
   \<and> sortResultsCompare scoreRankCompare exampleTournament examplePair53
       (swapColors examplePair44) = Some True
   \<and> sortResults scoreRankCompare [exampleBye6, swapColors examplePair44, examplePair53]
       exampleTournament = Some [examplePair53, swapColors examplePair44, exampleBye6]"
proof -
  have m: "map (\<lambda>p. if p = examplePair44 then swapColors examplePair44 else p)
      [exampleBye6, examplePair44, examplePair53]
      = [exampleBye6, swapColors examplePair44, examplePair53]"
    "map (\<lambda>p. if p = examplePair44 then swapColors examplePair44 else p)
      [examplePair53, examplePair44, exampleBye6]
      = [examplePair53, swapColors examplePair44, exampleBye6]"
    by (simp_all add: example_defs)
  from C5_orientation_independent[OF example_strict_total, of examplePair44 examplePair53
      "[exampleBye6, examplePair44, examplePair53]"]
  show ?thesis
    unfolding m
    by (simp add: example_strict_total example_compare example_sorted)
       (simp add: example_defs swapColors_def)
qed

section \<open>Properties of printChecklist\<close>

subsection \<open>Outcomes of the helpers\<close>

lemma andThen_Returns_iff:
  "andThen r f = Returns y \<longleftrightarrow> (\<exists>x. r = Returns x \<and> f x = Returns y)"
  by (cases r) simp_all

lemma andThen_Throws_iff:
  "andThen r f = Throws e \<longleftrightarrow> r = Throws e \<or> (\<exists>x. r = Returns x \<and> f x = Throws e)"
  by (cases r) simp_all

lemma andThen_Halts_iff:
  "andThen r f = Halts h \<longleftrightarrow> r = Halts h \<or> (\<exists>x. r = Returns x \<and> f x = Halts h)"
  by (cases r) simp_all

lemma roundColumns_cases:
  "roundColumns env player rounds =
     (if \<forall>i\<in>set rounds. i < length (matches player)
      then Returns (map (roundCell env player) rounds) else Halts OutOfBounds)"
  by (induction rounds) (simp_all add: roundCell_def)

lemma roundColumns_upto:
  "roundColumns env player [0..<n] =
     (if n \<le> length (matches player)
      then Returns (map (roundCell env player) [0..<n]) else Halts OutOfBounds)"
proof -
  have "(\<forall>i\<in>set [0..<n]. i < length (matches player)) \<longleftrightarrow> n \<le> length (matches player)"
    by (cases n) auto
  then show ?thesis by (simp add: roundColumns_cases)
qed

lemma length_rowCells:
  "length (rowCells env cols player t) = 5 + length cols + playedRounds t"
  by (simp add: rowCells_def)

lemma getRow_cases:
  "getRow env memoryAvailable cols player t =
     (if \<not> memoryAvailable then Throws bad_alloc
      else if playedRounds t \<le> length (matches player)
        then Returns (rowCells env cols player t)
      else Halts OutOfBounds)"
  by (simp add: getRow_def roundColumns_upto rowCells_def)

lemma length_headerCells:
  "length (headerCells env sh t) = 5 + length sh + playedRounds t"
  by (simp add: headerCells_def)

lemma getHeader_cases:
  "getHeader env memoryAvailable sh t =
     (if \<not> memoryAvailable then Throws bad_alloc
      else if npos env \<le> playedRounds t then Throws length_error
      else Returns (headerCells env sh t))"
  by (simp add: getHeader_def headerCells_def)

lemma headerWidths_cases:
  "(\<exists>ws. headerWidths env ss = Returns ws \<and> length ws = length ss)
   \<or> headerWidths env ss = Throws length_error"
  by (induction ss) auto

lemma updateColumnWidths_same_length:
  "length ws = length ss \<Longrightarrow>
   (\<exists>ws'. updateColumnWidths env ws ss = Returns ws' \<and> length ws' = length ws)
   \<or> updateColumnWidths env ws ss = Throws length_error"
  by (induction env ws ss rule: updateColumnWidths.induct) auto

lemma updateColumnWidths_no_bad_alloc:
  "updateColumnWidths env ws ss \<noteq> Throws bad_alloc"
  by (induction env ws ss rule: updateColumnWidths.induct)
     (auto simp: andThen_Throws_iff)

lemma printRow_no_throw: "printRow row ws \<noteq> Throws e"
  by (induction row ws rule: printRow.induct) (auto simp: andThen_Throws_iff)

lemma printRow_returns:
  "length row \<le> length ws \<Longrightarrow> \<exists>text. printRow row ws = Returns text"
  by (induction row ws rule: printRow.induct) auto

lemma getRow_no_length_error: "getRow env m cols p t \<noteq> Throws length_error"
  by (simp add: getRow_cases)

subsection \<open>Outcomes of the two passes\<close>

lemma rowWidths_short:
  "\<exists>p\<in>set ps. length (matches p) < playedRounds t \<Longrightarrow>
   rowWidths env mem sv t i ps ws \<noteq> Returns w"
proof (induction ps arbitrary: i ws)
  case Nil
  then show ?case by simp
next
  case (Cons p ps)
  show ?case
  proof (cases "length (matches p) < playedRounds t")
    case True
    then show ?thesis by (simp add: getRow_cases)
  next
    case False
    with Cons.prems have "\<exists>q\<in>set ps. length (matches q) < playedRounds t" by simp
    then have "rowWidths env mem sv t (i + 1) ps ws' \<noteq> Returns w" for ws'
      by (rule Cons.IH)
    then show ?thesis
      by (auto simp add: andThen_Returns_iff)
  qed
qed

lemma rowWidths_outcomes:
  assumes "\<forall>p\<in>set ps. length (sv p) = n" and "length ws = 5 + n + playedRounds t"
  shows "(\<exists>w. rowWidths env mem sv t i ps ws = Returns w \<and> length w = length ws)
    \<or> rowWidths env mem sv t i ps ws = Throws length_error
    \<or> (rowWidths env mem sv t i ps ws = Throws bad_alloc \<and> (\<exists>site. \<not> mem site))
    \<or> (rowWidths env mem sv t i ps ws = Halts OutOfBounds
        \<and> (\<exists>p\<in>set ps. length (matches p) < playedRounds t))"
  using assms
proof (induction ps arbitrary: i ws)
  case Nil
  then show ?case by simp
next
  case (Cons p ps)
  let ?row = "rowCells env (sv p) p t"
  have len: "length ws = length ?row"
    using Cons.prems by (simp add: length_rowCells)
  consider (nomem) "\<not> mem (WidthPassRow i)"
    | (short) "mem (WidthPassRow i)" "length (matches p) < playedRounds t"
    | (ok) "mem (WidthPassRow i)" "playedRounds t \<le> length (matches p)"
    by fastforce
  then show ?case
  proof cases
    case nomem
    then show ?thesis by (auto simp add: getRow_cases)
  next
    case short
    then show ?thesis by (simp add: getRow_cases)
  next
    case ok
    then have row: "getRow env (mem (WidthPassRow i)) (sv p) p t = Returns ?row"
      by (simp add: getRow_cases)
    from updateColumnWidths_same_length[OF len, of env]
    show ?thesis
    proof
      assume "\<exists>ws'. updateColumnWidths env ws ?row = Returns ws' \<and> length ws' = length ws"
      then obtain ws' where ws': "updateColumnWidths env ws ?row = Returns ws'"
        "length ws' = length ws" by blast
      have "(\<exists>w. rowWidths env mem sv t (i + 1) ps ws' = Returns w \<and> length w = length ws')
        \<or> rowWidths env mem sv t (i + 1) ps ws' = Throws length_error
        \<or> (rowWidths env mem sv t (i + 1) ps ws' = Throws bad_alloc \<and> (\<exists>site. \<not> mem site))
        \<or> (rowWidths env mem sv t (i + 1) ps ws' = Halts OutOfBounds
            \<and> (\<exists>p\<in>set ps. length (matches p) < playedRounds t))"
        using Cons.prems ws'(2) by (intro Cons.IH) simp_all
      then show ?thesis
        using row ws' by auto
    next
      assume "updateColumnWidths env ws ?row = Throws length_error"
      then show ?thesis using row by simp
    qed
  qed
qed

lemma computeColumnWidths_outcomes:
  assumes "\<forall>p\<in>set ps. length (sv p) = length sh"
  shows "(\<exists>w. computeColumnWidths env mem sh sv t ps = Returns w
          \<and> length w = 5 + length sh + playedRounds t \<and> playedRounds t < npos env
          \<and> (\<forall>p\<in>set ps. playedRounds t \<le> length (matches p)))
    \<or> computeColumnWidths env mem sh sv t ps = Throws length_error
    \<or> (computeColumnWidths env mem sh sv t ps = Throws bad_alloc \<and> (\<exists>site. \<not> mem site))
    \<or> (computeColumnWidths env mem sh sv t ps = Halts OutOfBounds
        \<and> (\<exists>p\<in>set ps. length (matches p) < playedRounds t))"
proof -
  consider (nomem) "\<not> mem WidthPassHeader"
    | (large) "mem WidthPassHeader" "npos env \<le> playedRounds t"
    | (ok) "mem WidthPassHeader" "playedRounds t < npos env"
    by fastforce
  then show ?thesis
  proof cases
    case nomem
    then show ?thesis by (auto simp add: computeColumnWidths_def getHeader_cases)
  next
    case large
    then show ?thesis by (simp add: computeColumnWidths_def getHeader_cases)
  next
    case ok
    let ?header = "headerCells env sh t"
    have hdr: "getHeader env (mem WidthPassHeader) sh t = Returns ?header"
      using ok by (simp add: getHeader_cases)
    from headerWidths_cases[of env ?header] show ?thesis
    proof
      assume "\<exists>ws. headerWidths env ?header = Returns ws \<and> length ws = length ?header"
      then obtain ws where ws: "headerWidths env ?header = Returns ws"
        "length ws = 5 + length sh + playedRounds t"
        by (auto simp add: length_headerCells)
      have eq: "computeColumnWidths env mem sh sv t ps = rowWidths env mem sv t 0 ps ws"
        by (simp add: computeColumnWidths_def hdr ws(1))
      have short: "\<not> (\<exists>p\<in>set ps. length (matches p) < playedRounds t)"
        if "rowWidths env mem sv t 0 ps ws = Returns w" for w
        using that rowWidths_short[of ps t env mem sv 0 ws w] by blast
      from rowWidths_outcomes[OF assms ws(2), of env mem 0] show ?thesis
        unfolding eq using ws(2) ok(2) short by (auto simp: not_less)
    next
      assume "headerWidths env ?header = Throws length_error"
      then show ?thesis by (simp add: computeColumnWidths_def hdr)
    qed
  qed
qed

lemma computeColumnWidths_short:
  assumes "\<exists>p\<in>set ps. length (matches p) < playedRounds t"
  shows "computeColumnWidths env mem sh sv t ps \<noteq> Returns w"
proof
  assume "computeColumnWidths env mem sh sv t ps = Returns w"
  then obtain ws where "rowWidths env mem sv t 0 ps ws = Returns w"
    by (auto simp add: computeColumnWidths_def andThen_Returns_iff)
  with rowWidths_short[OF assms] show False by blast
qed

lemma computeColumnWidths_Returns_npos:
  "computeColumnWidths env mem sh sv t ps = Returns w \<Longrightarrow> playedRounds t < npos env"
  by (auto simp add: computeColumnWidths_def andThen_Returns_iff getHeader_cases
      split: if_splits)

lemma outputRows_no_length_error:
  "snd (outputRows env mem sv t ws i prev ps out) \<noteq> Throws length_error"
proof (induction ps arbitrary: i prev out)
  case Nil
  then show ?case by simp
next
  case (Cons p ps)
  have "andThen (getRow env (mem (OutputPassRow i)) (sv p) p t) (\<lambda>row. printRow row ws)
      \<noteq> Throws length_error"
    by (simp add: andThen_Throws_iff getRow_no_length_error printRow_no_throw)
  then show ?case
    using Cons.IH by (auto simp add: Let_def split: result.splits)
qed

lemma outputRows_outcomes:
  assumes "\<forall>p\<in>set ps. length (sv p) = n \<and> playedRounds t \<le> length (matches p)"
    and "length ws = 5 + n + playedRounds t"
  shows "\<exists>text. outputRows env mem sv t ws i prev ps out = (text, Returns ())
      \<or> outputRows env mem sv t ws i prev ps out = (text, Throws bad_alloc)"
  using assms(1)
proof (induction ps arbitrary: i prev out)
  case Nil
  then show ?case by simp
next
  case (Cons p ps)
  let ?row = "rowCells env (sv p) p t"
  have "length ?row \<le> length ws"
    using Cons.prems assms(2) by (simp add: length_rowCells)
  then obtain line where line: "printRow ?row ws = Returns line"
    using printRow_returns by blast
  have ih: "\<exists>text. outputRows env mem sv t ws i' prev' ps out' = (text, Returns ())
      \<or> outputRows env mem sv t ws i' prev' ps out' = (text, Throws bad_alloc)"
    for i' prev' out'
    using Cons.prems by (intro Cons.IH) simp
  show ?case
  proof (cases "mem (OutputPassRow i)")
    case True
    then have "andThen (getRow env (mem (OutputPassRow i)) (sv p) p t)
        (\<lambda>row. printRow row ws) = Returns line"
      using Cons.prems line by (simp add: getRow_cases)
    then show ?thesis
      using ih by (simp add: Let_def)
  next
    case False
    then show ?thesis by (simp add: getRow_cases Let_def)
  qed
qed

lemma checklistBody_length_error:
  assumes "checklistBody env mem sh sv t ps = (ostream, Throws length_error)"
  shows "ostream = []"
proof (cases "computeColumnWidths env mem sh sv t ps")
  case (Returns ws)
  then have small: "playedRounds t < npos env"
    by (rule computeColumnWidths_Returns_npos)
  let ?head = "andThen (getHeader env (mem OutputPassHeader) sh t) (\<lambda>header. printRow header ws)"
  have nohead: "?head \<noteq> Throws length_error"
    using small by (simp add: andThen_Throws_iff getHeader_cases printRow_no_throw)
  show ?thesis
  proof (cases ?head)
    case (Returns line)
    with assms \<open>computeColumnWidths env mem sh sv t ps = Returns ws\<close>
    have "outputRows env mem sv t ws 0 None ps (endl @ line) = (ostream, Throws length_error)"
      by (simp add: checklistBody_def)
    then have "snd (outputRows env mem sv t ws 0 None ps (endl @ line)) = Throws length_error"
      by simp
    with outputRows_no_length_error show ?thesis by blast
  next
    case (Throws e)
    with assms nohead \<open>computeColumnWidths env mem sh sv t ps = Returns ws\<close>
    show ?thesis by (simp add: checklistBody_def)
  next
    case (Halts h)
    with assms \<open>computeColumnWidths env mem sh sv t ps = Returns ws\<close>
    show ?thesis by (simp add: checklistBody_def)
  qed
next
  case (Throws e)
  with assms show ?thesis by (simp add: checklistBody_def)
next
  case (Halts h)
  with assms show ?thesis by (simp add: checklistBody_def)
qed

lemma printChecklist_no_throw: "printChecklist env mem sh sv t ps \<noteq> Throws e"
  by (simp add: printChecklist_def split: prod.splits result.splits exn.splits)

lemma printChecklist_trailing:
  "printChecklist env mem sh sv t ps = Returns out \<Longrightarrow>
   \<exists>body. out = body @ endl @ endl @ endl"
  by (auto simp add: printChecklist_def split: prod.splits result.splits exn.splits)

subsection \<open>The example checklist\<close>

lemma example_body_tiny:
  "checklistBody ((exampleEnvironment False)\<lparr>npos := 1\<rparr>) allMemory [] (\<lambda>p. [])
     exampleRoundOne (players exampleRoundOne) = ([], Throws length_error)"
  by (simp add: checklist_defs)

lemma example_widths_no_memory:
  "computeColumnWidths (exampleEnvironment False) (memoryExceptAt (WidthPassRow 1)) []
     (\<lambda>p. []) exampleRoundOne (players exampleRoundOne) = Throws bad_alloc"
  by (simp add: checklist_defs)

lemma example_body_no_memory:
  "checklistBody (exampleEnvironment False) (memoryExceptAt (WidthPassRow 1)) []
     (\<lambda>p. []) exampleRoundOne (players exampleRoundOne) = ([], Throws bad_alloc)"
  unfolding checklistBody_def example_widths_no_memory by simp

lemma upt_two: "[0..<2] = [0, Suc 0]"
  by (simp add: numeral_2_eq_2)

lemma example_short_halts:
  "printChecklist (exampleEnvironment False) allMemory [] (\<lambda>p. []) exampleShortHistory
     (players exampleShortHistory) = Halts OutOfBounds"
  by (simp add: checklist_defs exampleShortHistory_def upt_two)

lemma example_short_lengths:
  "map (\<lambda>p. length (matches p)) (players exampleShortHistory) = [1, 1]"
  "playedRounds exampleShortHistory = 2"
  "map (\<lambda>p. length (matches p)) (players exampleRoundOne) = [1, 1]"
  "playedRounds exampleRoundOne = 1"
  by (simp_all add: exampleShortHistory_def exampleRoundOne_def mkPlayer_def)

subsection \<open>Length errors and memory exhaustion\<close>

text \<open>
  C8, as the code has it. printChecklist propagates neither a length error nor memory
  exhaustion, and whenever it returns, the text it wrote ends with the three newlines.
  A length error arises only in the column-width pass, before anything is written: the
  output is then the one-line message about the size and the three newlines. Memory
  exhaustion in the column-width pass gives in the same way the one-line message about
  the memory and the three newlines. Whenever memory is exhausted, that message follows
  what the block had written and is followed by the three newlines. Neither message
  contains a newline.
\<close>

theorem C8_errors_caught_stream_terminated:
  "(\<forall>e. printChecklist env mem sh sv t ps \<noteq> Throws e)
   \<and> (\<forall>out. printChecklist env mem sh sv t ps = Returns out \<longrightarrow>
        (\<exists>body. out = body @ endl @ endl @ endl))
   \<and> (\<forall>ostream. checklistBody env mem sh sv t ps = (ostream, Throws length_error) \<longrightarrow>
        ostream = []
        \<and> printChecklist env mem sh sv t ps = Returns (tooLargeMessage @ endl @ endl @ endl))
   \<and> (computeColumnWidths env mem sh sv t ps = Throws bad_alloc \<longrightarrow>
        printChecklist env mem sh sv t ps = Returns (outOfMemoryMessage @ endl @ endl @ endl))
   \<and> (\<forall>ostream. checklistBody env mem sh sv t ps = (ostream, Throws bad_alloc) \<longrightarrow>
        printChecklist env mem sh sv t ps =
          Returns (ostream @ outOfMemoryMessage @ endl @ endl @ endl))
   \<and> CHR 0x0A \<notin> set tooLargeMessage \<and> CHR 0x0A \<notin> set outOfMemoryMessage"
proof (intro conjI allI impI)
  fix e show "printChecklist env mem sh sv t ps \<noteq> Throws e"
    by (rule printChecklist_no_throw)
next
  fix out assume "printChecklist env mem sh sv t ps = Returns out"
  then show "\<exists>body. out = body @ endl @ endl @ endl"
    by (rule printChecklist_trailing)
next
  fix ostream
  assume body: "checklistBody env mem sh sv t ps = (ostream, Throws length_error)"
  then show "ostream = []" by (rule checklistBody_length_error)
  with body show "printChecklist env mem sh sv t ps =
      Returns (tooLargeMessage @ endl @ endl @ endl)"
    by (simp add: printChecklist_def)
next
  assume "computeColumnWidths env mem sh sv t ps = Throws bad_alloc"
  then show "printChecklist env mem sh sv t ps =
      Returns (outOfMemoryMessage @ endl @ endl @ endl)"
    by (simp add: printChecklist_def checklistBody_def)
next
  fix ostream
  assume "checklistBody env mem sh sv t ps = (ostream, Throws bad_alloc)"
  then show "printChecklist env mem sh sv t ps =
      Returns (ostream @ outOfMemoryMessage @ endl @ endl @ endl)"
    by (simp add: printChecklist_def)
next
  show "CHR 0x0A \<notin> set tooLargeMessage" by (simp add: tooLargeMessage_def)
  show "CHR 0x0A \<notin> set outOfMemoryMessage" by (simp add: outOfMemoryMessage_def)
qed

theorem C8_errors_caught_stream_terminated_witness:
  "checklistBody ((exampleEnvironment False)\<lparr>npos := 1\<rparr>) allMemory [] (\<lambda>p. [])
     exampleRoundOne (players exampleRoundOne) = ([], Throws length_error)
   \<and> printChecklist ((exampleEnvironment False)\<lparr>npos := 1\<rparr>) allMemory [] (\<lambda>p. [])
       exampleRoundOne (players exampleRoundOne)
       = Returns (tooLargeMessage @ endl @ endl @ endl)
   \<and> computeColumnWidths (exampleEnvironment False) (memoryExceptAt (WidthPassRow 1)) []
       (\<lambda>p. []) exampleRoundOne (players exampleRoundOne) = Throws bad_alloc
   \<and> checklistBody (exampleEnvironment False) (memoryExceptAt (WidthPassRow 1)) []
       (\<lambda>p. []) exampleRoundOne (players exampleRoundOne) = ([], Throws bad_alloc)
   \<and> printChecklist (exampleEnvironment False) (memoryExceptAt (WidthPassRow 1)) []
       (\<lambda>p. []) exampleRoundOne (players exampleRoundOne)
       = Returns (outOfMemoryMessage @ endl @ endl @ endl)"
  using example_body_tiny example_widths_no_memory example_body_no_memory
    C8_errors_caught_stream_terminated[of "(exampleEnvironment False)\<lparr>npos := 1\<rparr>"
      allMemory "[]" "\<lambda>p. []" exampleRoundOne "players exampleRoundOne"]
    C8_errors_caught_stream_terminated[of "exampleEnvironment False"
      "memoryExceptAt (WidthPassRow 1)" "[]" "\<lambda>p. []" exampleRoundOne
      "players exampleRoundOne"]
  by simp

text \<open>
  C8, as the claim words it, fails: the claim excludes a partial report. When the
  memory for the row of the second player is missing in the output pass, the header
  and the row of the first player are already written, and the message follows them.
\<close>

theorem C8_no_partial_report_counterexample:
  "printChecklist (exampleEnvironment False) (memoryExceptAt (OutputPassRow 1)) []
     (\<lambda>p. []) exampleRoundOne (players exampleRoundOne)
   = Returns
      (endl @ ''ID'' @ tab @ ''Pts'' @ tab @ ''--'' @ tab @ ''Pref'' @ tab @ tab @ ''R1'' @ tab
       @ endl @ endl
       @ '' 1'' @ tab @ ''1.0'' @ tab @ '' W'' @ tab @ ''  A '' @ tab @ tab @ '' 2'' @ tab
       @ endl @ endl
       @ outOfMemoryMessage @ endl @ endl @ endl)
   \<and> printChecklist (exampleEnvironment False) (memoryExceptAt (OutputPassRow 1)) []
       (\<lambda>p. []) exampleRoundOne (players exampleRoundOne)
     \<noteq> Returns (outOfMemoryMessage @ endl @ endl @ endl)"
  by (simp add: checklist_defs outOfMemoryMessage_def)

subsection \<open>The precondition on the match histories\<close>

text \<open>
  C10. getRow reads \<^verbatim>\<open>player.matches[roundIndex]\<close> for every round index below
  \<^verbatim>\<open>playedRounds\<close> without a bounds check: given its memory, it reads outside the
  sequence exactly when the player has fewer matches than rounds were played. With
  such a player among \<^verbatim>\<open>orderedPlayers\<close> printChecklist never gets through its
  column-width pass; when memory suffices and every row has as many specialty columns
  as the header, the call reads out of bounds unless a length error comes first. When
  every player has at least \<^verbatim>\<open>playedRounds\<close> matches (and every row as many specialty
  columns as the header), printChecklist returns.
\<close>

theorem C10_matches_precondition:
  "(getRow env memoryAvailable cols player t = Halts OutOfBounds
      \<longleftrightarrow> memoryAvailable \<and> length (matches player) < playedRounds t)
   \<and> ((\<exists>p\<in>set ps. length (matches p) < playedRounds t) \<longrightarrow>
        (\<forall>w. computeColumnWidths env mem sh sv t ps \<noteq> Returns w))
   \<and> ((\<exists>p\<in>set ps. length (matches p) < playedRounds t) \<and> (\<forall>site. mem site)
        \<and> (\<forall>p\<in>set ps. length (sv p) = length sh) \<longrightarrow>
        printChecklist env mem sh sv t ps = Halts OutOfBounds
        \<or> printChecklist env mem sh sv t ps = Returns (tooLargeMessage @ endl @ endl @ endl))
   \<and> ((\<forall>p\<in>set ps. playedRounds t \<le> length (matches p))
        \<and> (\<forall>p\<in>set ps. length (sv p) = length sh) \<longrightarrow>
        (\<exists>out. printChecklist env mem sh sv t ps = Returns out))"
proof (intro conjI impI allI)
  show "getRow env memoryAvailable cols player t = Halts OutOfBounds
      \<longleftrightarrow> memoryAvailable \<and> length (matches player) < playedRounds t"
    by (auto simp add: getRow_cases)
next
  fix w assume "\<exists>p\<in>set ps. length (matches p) < playedRounds t"
  then show "computeColumnWidths env mem sh sv t ps \<noteq> Returns w"
    by (rule computeColumnWidths_short)
next
  assume a: "(\<exists>p\<in>set ps. length (matches p) < playedRounds t) \<and> (\<forall>site. mem site)
        \<and> (\<forall>p\<in>set ps. length (sv p) = length sh)"
  then have counts: "\<forall>p\<in>set ps. length (sv p) = length sh" by blast
  from computeColumnWidths_outcomes[OF counts, of env mem t]
  have "computeColumnWidths env mem sh sv t ps = Throws length_error
      \<or> computeColumnWidths env mem sh sv t ps = Halts OutOfBounds"
    using a by (auto simp: not_le)
  then show "printChecklist env mem sh sv t ps = Halts OutOfBounds
        \<or> printChecklist env mem sh sv t ps = Returns (tooLargeMessage @ endl @ endl @ endl)"
    by (auto simp add: printChecklist_def checklistBody_def)
next
  assume a: "(\<forall>p\<in>set ps. playedRounds t \<le> length (matches p))
        \<and> (\<forall>p\<in>set ps. length (sv p) = length sh)"
  then have counts: "\<forall>p\<in>set ps. length (sv p) = length sh" by blast
  have nohalt: "checklistBody env mem sh sv t ps \<noteq> (ostream, Halts h)" for ostream h
  proof
    assume halt: "checklistBody env mem sh sv t ps = (ostream, Halts h)"
    from computeColumnWidths_outcomes[OF counts, of env mem t]
    consider (ret) w where "computeColumnWidths env mem sh sv t ps = Returns w"
        "length w = 5 + length sh + playedRounds t" "playedRounds t < npos env"
      | (thr) e where "computeColumnWidths env mem sh sv t ps = Throws e"
      using a by (auto simp: not_less)
    then show False
    proof cases
      case ret
      have "length (headerCells env sh t) \<le> length w"
        using ret(2) by (simp add: length_headerCells)
      then obtain line where line: "printRow (headerCells env sh t) w = Returns line"
        using printRow_returns by blast
      from outputRows_outcomes[of ps sv "length sh" t w env mem 0 None "endl @ line"]
      obtain cells where
        "outputRows env mem sv t w 0 None ps (endl @ line) = (cells, Returns ())
         \<or> outputRows env mem sv t w 0 None ps (endl @ line) = (cells, Throws bad_alloc)"
        using a ret(2) by auto
      with halt ret line show False
        by (cases "mem OutputPassHeader")
           (auto simp add: checklistBody_def getHeader_cases)
    next
      case thr
      with halt show False by (simp add: checklistBody_def)
    qed
  qed
  then show "\<exists>out. printChecklist env mem sh sv t ps = Returns out"
    by (cases "checklistBody env mem sh sv t ps")
       (auto simp add: printChecklist_def split: result.splits exn.splits)
qed

theorem C10_matches_precondition_witness:
  "map (\<lambda>p. length (matches p)) (players exampleShortHistory) = [1, 1]
   \<and> playedRounds exampleShortHistory = 2
   \<and> getRow (exampleEnvironment False) True [] (players exampleShortHistory ! 0)
       exampleShortHistory = Halts OutOfBounds
   \<and> printChecklist (exampleEnvironment False) allMemory [] (\<lambda>p. []) exampleShortHistory
       (players exampleShortHistory) = Halts OutOfBounds
   \<and> map (\<lambda>p. length (matches p)) (players exampleRoundOne) = [1, 1]
   \<and> playedRounds exampleRoundOne = 1
   \<and> (\<exists>out. printChecklist (exampleEnvironment False) allMemory [] (\<lambda>p. []) exampleRoundOne
       (players exampleRoundOne) = Returns out)"
proof -
  have short: "\<exists>p\<in>set (players exampleShortHistory).
      length (matches p) < playedRounds exampleShortHistory"
    and long: "\<forall>p\<in>set (players exampleRoundOne).
      playedRounds exampleRoundOne \<le> length (matches p)"
    and first: "length (matches (players exampleShortHistory ! 0))
      < playedRounds exampleShortHistory"
    by (simp_all add: exampleShortHistory_def exampleRoundOne_def mkPlayer_def)
  from C10_matches_precondition[of "exampleEnvironment False" True "[]"
      "players exampleShortHistory ! 0" exampleShortHistory "players exampleShortHistory"
      allMemory "[]" "\<lambda>p. []"]
    C10_matches_precondition[of "exampleEnvironment False" True "[]"
      "players exampleRoundOne ! 0" exampleRoundOne "players exampleRoundOne"
      allMemory "[]" "\<lambda>p. []"]
  show ?thesis
    using short long first
    by (simp add: example_short_lengths example_short_halts)
qed

section \<open>Properties of getInfo\<close>

text \<open>
  C9, as the code has it. For an identifier other than BURSTEIN, getInfo stops with a
  failed assertion in a build with assertions enabled; in a build that defines
  \<^verbatim>\<open>NDEBUG\<close> it returns the Burstein Info object. For BURSTEIN it returns that object
  in both builds.
\<close>

theorem C9_getInfo_unsupported:
  "(swissSystem \<noteq> BURSTEIN \<longrightarrow>
      getInfo ndebugDefined swissSystem =
        (if ndebugDefined then Returns bursteinInfo else Halts AssertionFailure))
   \<and> getInfo ndebugDefined BURSTEIN = Returns bursteinInfo"
  by (cases swissSystem) (simp_all add: getInfo_def)

theorem C9_getInfo_unsupported_witness:
  "OtherSystem 1 \<noteq> BURSTEIN
   \<and> getInfo False (OtherSystem 1) = Halts AssertionFailure
   \<and> getInfo True (OtherSystem 1) = Returns bursteinInfo"
  using C9_getInfo_unsupported[of "OtherSystem 1" False]
    C9_getInfo_unsupported[of "OtherSystem 1" True]
  by simp

text \<open>
  C9, as the claim words it, fails in a build that defines \<^verbatim>\<open>NDEBUG\<close>: the call on an
  unsupported identifier returns a usable Info object.
\<close>

theorem C9_getInfo_always_halts_counterexample:
  "OtherSystem 1 \<noteq> BURSTEIN
   \<and> getInfo True (OtherSystem 1) = Returns bursteinInfo
   \<and> getInfo True (OtherSystem 1) \<noteq> Halts AssertionFailure"
  by (simp add: getInfo_def)

end
